theory Spec2Isabelle
  imports Complex_Main "HOL-Library.Monad_Syntax"
begin

section \<open>JavaScript numbers\<close>

text \<open>
  The metrics of the liveness demo are JavaScript numbers. Landmark coordinates and
  detection scores are finite; they are idealised as reals (rounding is not modelled).
  A division can leave the finite numbers: \<open>x / 0\<close> is \<open>Infinity\<close>, \<open>-Infinity\<close>
  or \<open>NaN\<close> and never raises. Every divisor of this program is a square root, a
  difference of two finite numbers or the literal \<open>2\<close>, so a zero divisor is always
  the positive zero and \<open>Fin 0\<close> stands for it.
\<close>

datatype jsnum = Fin real | PInf | NInf | NaN

fun jadd :: "jsnum \<Rightarrow> jsnum \<Rightarrow> jsnum" where
  "jadd NaN _ = NaN"
| "jadd _ NaN = NaN"
| "jadd (Fin a) (Fin b) = Fin (a + b)"
| "jadd PInf NInf = NaN"
| "jadd NInf PInf = NaN"
| "jadd PInf _ = PInf"
| "jadd _ PInf = PInf"
| "jadd NInf _ = NInf"
| "jadd _ NInf = NInf"

fun jdiv :: "jsnum \<Rightarrow> jsnum \<Rightarrow> jsnum" where
  "jdiv NaN _ = NaN"
| "jdiv _ NaN = NaN"
| "jdiv (Fin a) (Fin b) =
     (if b \<noteq> 0 then Fin (a / b)
      else if 0 < a then PInf
      else if a < 0 then NInf
      else NaN)"
| "jdiv (Fin a) _ = Fin 0"
| "jdiv PInf (Fin b) = (if 0 \<le> b then PInf else NInf)"
| "jdiv NInf (Fin b) = (if 0 \<le> b then NInf else PInf)"
| "jdiv _ _ = NaN"

text \<open>Comparisons: every comparison with \<open>NaN\<close> is false.\<close>

fun jlt :: "jsnum \<Rightarrow> jsnum \<Rightarrow> bool" where
  "jlt NaN _ = False"
| "jlt _ NaN = False"
| "jlt (Fin a) (Fin b) = (a < b)"
| "jlt NInf NInf = False"
| "jlt NInf _ = True"
| "jlt PInf _ = False"
| "jlt (Fin a) PInf = True"
| "jlt (Fin a) NInf = False"

definition jgt :: "jsnum \<Rightarrow> jsnum \<Rightarrow> bool" where
  "jgt a b = jlt b a"

definition jle :: "jsnum \<Rightarrow> jsnum \<Rightarrow> bool" where
  "jle a b = (a \<noteq> NaN \<and> b \<noteq> NaN \<and> (a = b \<or> jlt a b))"

definition jge :: "jsnum \<Rightarrow> jsnum \<Rightarrow> bool" where
  "jge a b = jle b a"

section \<open>Configuration\<close>

definition BLINK_THRESHOLD :: jsnum where
  "BLINK_THRESHOLD = Fin (3 / 10)"

definition MOUTH_OPEN_THRESHOLD :: jsnum where
  "MOUTH_OPEN_THRESHOLD = Fin (3 / 10)"

section \<open>Landmarks and geometry helpers\<close>

text \<open>
  A point of face-api.js has the fields \<open>x\<close> and \<open>y\<close>; they are the selectors
  \<open>px\<close> and \<open>py\<close> here. The landmark groups are arrays. Reading an array out of
  range gives \<open>undefined\<close>, and the field access on it raises a TypeError: a raise is
  the value \<open>None\<close>.
\<close>

record point =
  px :: real
  py :: real

record landmarks =
  getLeftEye :: "point list"
  getRightEye :: "point list"
  getMouth :: "point list"
  getNose :: "point list"
  getJawOutline :: "point list"

definition elemAt :: "'a list \<Rightarrow> nat \<Rightarrow> 'a option" where
  "elemAt xs i = (if i < length xs then Some (xs ! i) else None)"

definition dist_pt :: "point \<Rightarrow> point \<Rightarrow> real" where
  "dist_pt p1 p2 = sqrt ((px p1 - px p2)\<^sup>2 + (py p1 - py p2)\<^sup>2)"

definition getEAR :: "point list \<Rightarrow> jsnum option" where
  "getEAR eye =
     do {
       e1 \<leftarrow> elemAt eye 1;
       e5 \<leftarrow> elemAt eye 5;
       e2 \<leftarrow> elemAt eye 2;
       e4 \<leftarrow> elemAt eye 4;
       e0 \<leftarrow> elemAt eye 0;
       e3 \<leftarrow> elemAt eye 3;
       let A = dist_pt e1 e5;
       let B = dist_pt e2 e4;
       let C = dist_pt e0 e3;
       Some (jdiv (Fin (A + B)) (Fin (2 * C)))
     }"

definition getMAR :: "point list \<Rightarrow> jsnum option" where
  "getMAR mouth =
     do {
       p3 \<leftarrow> elemAt mouth 3;
       p9 \<leftarrow> elemAt mouth 9;
       p0 \<leftarrow> elemAt mouth 0;
       p6 \<leftarrow> elemAt mouth 6;
       let height = dist_pt p3 p9;
       let width = dist_pt p0 p6;
       Some (jdiv (Fin height) (Fin width))
     }"

text \<open>
  \<open>captureBestFace\<close> and the head-shake branch of \<open>processLiveness\<close> compute the
  same local \<open>noseRelX\<close> from the nose tip and the two ends of the jaw outline.
\<close>

definition noseRelX :: "landmarks \<Rightarrow> jsnum option" where
  "noseRelX lm =
     do {
       j0 \<leftarrow> elemAt (getJawOutline lm) 0;
       j16 \<leftarrow> elemAt (getJawOutline lm) 16;
       noseTip \<leftarrow> elemAt (getNose lm) 3;
       let faceLeft = px j0;
       let faceRight = px j16;
       let faceWidth = faceRight - faceLeft;
       Some (jdiv (Fin (px noseTip - faceLeft)) (Fin faceWidth))
     }"

section \<open>Session state\<close>

text \<open>
  The module-level variables of the page script, gathered in one record. The script
  exists in two versions: \<^verbatim>\<open>main.js\<close>, and a second one that adds the best-face
  capture (\<open>bestFace\<close>, \<open>captureBestFace\<close>, \<open>onCompleted\<close>, \<open>uploadFace\<close>);
  \<open>processLiveness\<close>, \<open>getEAR\<close>, \<open>getMAR\<close> and \<open>dist\<close> are the same in both.
  Of the page, the record keeps the status line, the console and the uploaded image;
  the check-list classes, the instruction line, the restart button and the alerts are
  presentation only and are left out. \<open>pendingCaptures\<close> holds the calls of
  \<open>canvas.toBlob\<close> whose callback has not run yet: for each, the score its closure
  holds and the blob the encoder will hand over (\<open>None\<close> for \<open>null\<close>).

  The counters are JavaScript numbers that only count frames: they are naturals.
  \<open>Date.now()\<close> is an integer number of milliseconds.
\<close>

datatype session_state = LOADING | READY | BLINK | MOUTH | SHAKE | COMPLETED

datatype blob = Blob nat

record head_shake =
  left :: int
  right :: int
  lastX :: int

record best_face =
  blob :: "blob option"
  score :: real

datatype console_msg =
    BlinkDetected
  | MouthOpenDetected
  | ShakeDetected
  | CaptureMark
  | BestFaceBlob blob

datatype status_line =
    StatusInitial
  | EyesClosed nat jsnum
  | EyesOpen jsnum
  | MouthOpen nat jsnum
  | MouthClosed jsnum
  | StatusCompleted
  | StatusBestFaceCaptured
  | FaceDetected
  | NoFaceDetected

record session =
  state :: session_state
  blinkCounter :: nat
  mouthOpenCounter :: nat
  headShakeData :: head_shake
  bestFace :: best_face
  statusEl :: status_line
  console :: "console_msg list"
  img_BestFace :: "blob option"
  pendingCaptures :: "(real \<times> blob option) list"

record face_detection =
  detectionScore :: real
  faceLandmarks :: landmarks

text \<open>
  What one run of the interval callback of \<open>onVideoPlay\<close> receives from outside:
  whether the video is paused or ended, the faces found, the blob the canvas encoder
  makes of a still drawn at this tick (\<open>None\<close> when it hands \<open>null\<close> to the callback
  of \<open>toBlob\<close>), and the clock.
\<close>

record tick =
  videoStopped :: bool
  detections :: "face_detection list"
  encoded :: "blob option"
  dateNow :: int

section \<open>Start and restart\<close>

definition resetMetrics :: "session \<Rightarrow> session" where
  "resetMetrics s =
     s\<lparr>blinkCounter := 0,
       mouthOpenCounter := 0,
       headShakeData := \<lparr>left = 0, right = 0, lastX = 0\<rparr>,
       bestFace := \<lparr>blob = None, score = 0\<rparr>\<rparr>"

definition uploadFace :: "blob \<Rightarrow> session \<Rightarrow> session" where
  "uploadFace b s = s\<lparr>img_BestFace := Some b\<rparr>"

definition onCompleted :: "session \<Rightarrow> session" where
  "onCompleted s =
     (case blob (bestFace s) of
        Some b \<Rightarrow>
          uploadFace b
            (s\<lparr>console := console s @ [BestFaceBlob b],
               statusEl := StatusBestFaceCaptured\<rparr>)
      | None \<Rightarrow> s)"

definition updateUI :: "session \<Rightarrow> session" where
  "updateUI s =
     (if state s = COMPLETED then onCompleted (s\<lparr>statusEl := StatusCompleted\<rparr>)
      else s)"

definition startLivenessTest :: "session \<Rightarrow> session" where
  "startLivenessTest s = updateUI (resetMetrics (s\<lparr>state := BLINK\<rparr>))"

text \<open>The click handler of the restart button.\<close>

definition restart :: "session \<Rightarrow> session" where
  "restart s = startLivenessTest s"

section \<open>Best-face capture\<close>

text \<open>
  \<open>captureBestFace\<close> compares the score with \<open>bestFace.score\<close> at once, draws the
  still and calls \<open>canvas.toBlob\<close>; the write of \<open>bestFace\<close> is in the callback it
  passes (\<open>toBlob_callback\<close>), which the browser runs later, as an event of its own,
  and which does not compare the scores again. So \<open>captureBestFace\<close> only adds the
  call to \<open>pendingCaptures\<close>, and \<open>toBlob_done i\<close> is the event in which the
  callback of the pending call \<open>i\<close> runs. Ticks, a restart and these callbacks can
  come in any order, a callback after the call that passed it.
\<close>

definition toBlob_callback :: "real \<Rightarrow> blob option \<Rightarrow> session \<Rightarrow> session" where
  "toBlob_callback sc b s =
     (case b of
        Some bl \<Rightarrow> s\<lparr>bestFace := (bestFace s)\<lparr>blob := Some bl, score := sc\<rparr>\<rparr>
      | None \<Rightarrow> s)"

definition isFrontal :: "jsnum \<Rightarrow> bool" where
  "isFrontal nr = (jgt nr (Fin (45 / 100)) \<and> jlt nr (Fin (55 / 100)))"

definition captureBestFace :: "face_detection \<Rightarrow> blob option \<Rightarrow> session \<Rightarrow> session option" where
  "captureBestFace detection enc s =
     do {
       nr \<leftarrow> noseRelX (faceLandmarks detection);
       let s1 = s\<lparr>console := console s @ [CaptureMark]\<rparr>;
       Some (if isFrontal nr \<and> detectionScore detection > score (bestFace s1)
             then s1\<lparr>pendingCaptures :=
                       pendingCaptures s1 @ [(detectionScore detection, enc)]\<rparr>
             else s1)
     }"

definition toBlob_done :: "nat \<Rightarrow> session \<Rightarrow> session" where
  "toBlob_done i s =
     (if i < length (pendingCaptures s)
      then (case pendingCaptures s ! i of
              (sc, b) \<Rightarrow>
                toBlob_callback sc b
                  (s\<lparr>pendingCaptures :=
                       take i (pendingCaptures s) @ drop (Suc i) (pendingCaptures s)\<rparr>))
      else s)"

section \<open>The challenge detectors\<close>

text \<open>The first lines of the blink branch: the local \<open>avgEAR\<close>.\<close>

definition avgEAR :: "landmarks \<Rightarrow> jsnum option" where
  "avgEAR lm =
     do {
       leftEAR \<leftarrow> getEAR (getLeftEye lm);
       rightEAR \<leftarrow> getEAR (getRightEye lm);
       Some (jdiv (jadd leftEAR rightEAR) (Fin 2))
     }"

definition processLiveness :: "landmarks \<Rightarrow> int \<Rightarrow> session \<Rightarrow> session option" where
  "processLiveness lm now s =
     (if state s = COMPLETED then Some s
      else if state s = BLINK then
        do {
          avgEAR \<leftarrow> avgEAR lm;
          Some (if jlt avgEAR BLINK_THRESHOLD
                then s\<lparr>blinkCounter := blinkCounter s + 1,
                       statusEl := EyesClosed (blinkCounter s + 1) avgEAR\<rparr>
                else
                  (let s1 = (if blinkCounter s \<ge> 1
                             then updateUI (s\<lparr>console := console s @ [BlinkDetected],
                                              state := MOUTH\<rparr>)
                             else s);
                       s2 = s1\<lparr>blinkCounter := 0\<rparr>
                   in if state s2 = BLINK then s2\<lparr>statusEl := EyesOpen avgEAR\<rparr> else s2))
        }
      else if state s = MOUTH then
        do {
          mar \<leftarrow> getMAR (getMouth lm);
          Some (if jgt mar MOUTH_OPEN_THRESHOLD
                then s\<lparr>mouthOpenCounter := mouthOpenCounter s + 1,
                       statusEl := MouthOpen (mouthOpenCounter s + 1) mar\<rparr>
                else
                  (let s1 = (if mouthOpenCounter s > 2
                             then updateUI (s\<lparr>console := console s @ [MouthOpenDetected],
                                              state := SHAKE\<rparr>)
                             else s);
                       s2 = s1\<lparr>mouthOpenCounter := 0\<rparr>
                   in if state s2 = MOUTH then s2\<lparr>statusEl := MouthClosed mar\<rparr> else s2))
        }
      else if state s = SHAKE then
        do {
          nr \<leftarrow> noseRelX lm;
          let h0 = headShakeData s;
          let h1 = (if jlt nr (Fin (4 / 10)) then h0\<lparr>left := now\<rparr> else h0);
          let h2 = (if jgt nr (Fin (6 / 10)) then h1\<lparr>right := now\<rparr> else h1);
          let s1 = s\<lparr>headShakeData := h2\<rparr>;
          Some (if left h2 \<noteq> 0 \<and> right h2 \<noteq> 0 \<and> \<bar>left h2 - right h2\<bar> < 2000
                then updateUI (s1\<lparr>console := console s1 @ [ShakeDetected],
                                 state := COMPLETED\<rparr>)
                else s1)
        }
      else Some s)"

section \<open>The interval callback\<close>

text \<open>
  The callback is an async function: a TypeError raised inside it rejects its promise
  and the rest of the callback is skipped, the variables staying as they are at the
  raise. \<open>onVideoPlay_tick\<close> is the version with the capture, \<open>onVideoPlay_tick_main\<close>
  the one of \<^verbatim>\<open>main.js\<close>. That script has no \<open>bestFace\<close> and its \<open>updateUI\<close> does
  not call \<open>onCompleted\<close>: its sessions are those whose \<open>bestFace\<close> stays at the
  initial value, and there \<open>onCompleted\<close> changes nothing.
\<close>

definition onVideoPlay_tick :: "tick \<Rightarrow> session \<Rightarrow> session" where
  "onVideoPlay_tick t s =
     (if videoStopped t then s
      else case detections t of
        [] \<Rightarrow> s\<lparr>statusEl := NoFaceDetected\<rparr>
      | face # _ \<Rightarrow>
          (case (if state s \<noteq> SHAKE \<and> state s \<noteq> COMPLETED \<and> state s \<noteq> LOADING
                 then captureBestFace face (encoded t) s
                 else Some s) of
             None \<Rightarrow> s
           | Some s1 \<Rightarrow>
               (case processLiveness (faceLandmarks face) (dateNow t) s1 of
                  None \<Rightarrow> s1
                | Some s2 \<Rightarrow> s2\<lparr>statusEl := FaceDetected\<rparr>)))"

definition onVideoPlay_tick_main :: "tick \<Rightarrow> session \<Rightarrow> session" where
  "onVideoPlay_tick_main t s =
     (if videoStopped t then s
      else case detections t of
        [] \<Rightarrow> s\<lparr>statusEl := NoFaceDetected\<rparr>
      | face # _ \<Rightarrow>
          (case processLiveness (faceLandmarks face) (dateNow t) s of
             None \<Rightarrow> s
           | Some s2 \<Rightarrow> s2\<lparr>statusEl := FaceDetected\<rparr>))"

section \<open>Runs of frames\<close>

text \<open>
  The interval fires again and again. \<open>processFrames\<close> feeds \<open>processLiveness\<close> the
  landmarks and clock readings of successive frames and stops at the first raise.
  \<open>runEvents\<close> runs the page over any sequence of its events: a tick of the interval,
  the callback of a pending \<open>toBlob\<close>, a click on the restart button.

  \<open>tickAndCapture\<close> is a tick together with the callback of the capture it requested,
  when it requested one: a frame handled to its end before anything else happens.
  \<open>runTicks\<close> runs such frames one after the other.
\<close>

datatype event = Tick tick | BlobDone nat | RestartClick

fun processFrames :: "(landmarks \<times> int) list \<Rightarrow> session \<Rightarrow> session option" where
  "processFrames [] s = Some s"
| "processFrames ((lm, now) # fs) s =
     (case processLiveness lm now s of
        None \<Rightarrow> None
      | Some s' \<Rightarrow> processFrames fs s')"

fun step :: "event \<Rightarrow> session \<Rightarrow> session" where
  "step (Tick t) s = onVideoPlay_tick t s"
| "step (BlobDone i) s = toBlob_done i s"
| "step RestartClick s = restart s"

fun runEvents :: "event list \<Rightarrow> session \<Rightarrow> session" where
  "runEvents [] s = s"
| "runEvents (e # es) s = runEvents es (step e s)"

definition tickAndCapture :: "tick \<Rightarrow> session \<Rightarrow> session" where
  "tickAndCapture t s =
     (let s1 = onVideoPlay_tick t s
      in if length (pendingCaptures s) < length (pendingCaptures s1)
         then toBlob_done (length (pendingCaptures s)) s1
         else s1)"

fun runTicks :: "tick list \<Rightarrow> session \<Rightarrow> session" where
  "runTicks [] s = s"
| "runTicks (t # ts) s = runTicks ts (tickAndCapture t s)"

text \<open>How a frame reads for the detectors.\<close>

definition eyesClosedFrame :: "landmarks \<Rightarrow> bool" where
  "eyesClosedFrame lm =
     (case avgEAR lm of Some a \<Rightarrow> jlt a BLINK_THRESHOLD | None \<Rightarrow> False)"

definition eyesOpenFrame :: "landmarks \<Rightarrow> bool" where
  "eyesOpenFrame lm =
     (case avgEAR lm of Some a \<Rightarrow> jge a BLINK_THRESHOLD | None \<Rightarrow> False)"

definition mouthOpenFrame :: "landmarks \<Rightarrow> bool" where
  "mouthOpenFrame lm =
     (case getMAR (getMouth lm) of Some mar \<Rightarrow> jgt mar MOUTH_OPEN_THRESHOLD | None \<Rightarrow> False)"

definition mouthShutFrame :: "landmarks \<Rightarrow> bool" where
  "mouthShutFrame lm =
     (case getMAR (getMouth lm) of Some mar \<Rightarrow> jle mar MOUTH_OPEN_THRESHOLD | None \<Rightarrow> False)"

definition frontalFrame :: "landmarks \<Rightarrow> bool" where
  "frontalFrame lm = (case noseRelX lm of Some nr \<Rightarrow> isFrontal nr | None \<Rightarrow> False)"

text \<open>The steps of the challenge sequence.\<close>

definition forwardSteps :: "(session_state \<times> session_state) set" where
  "forwardSteps = {(BLINK, MOUTH), (MOUTH, SHAKE), (SHAKE, COMPLETED)}"

section \<open>Sample inputs\<close>

definition pt :: "real \<Rightarrow> real \<Rightarrow> point" where
  "pt a b = \<lparr>px = a, py = b\<rparr>"

text \<open>An eye one unit wide whose lids are \<open>h\<close> apart: its EAR is \<open>h\<close>.\<close>

definition sampleEye :: "real \<Rightarrow> point list" where
  "sampleEye h = [pt 0 0, pt (1 / 2) h, pt (1 / 2) h, pt 1 0, pt (1 / 2) 0, pt (1 / 2) 0]"

text \<open>A mouth of twenty points, one unit wide and \<open>h\<close> high: its MAR is \<open>h\<close>.\<close>

definition sampleMouth :: "real \<Rightarrow> point list" where
  "sampleMouth h =
     [pt 0 0, pt 0 0, pt 0 0, pt (1 / 2) h, pt 0 0, pt 0 0, pt 1 0, pt 0 0, pt 0 0, pt (1 / 2) 0]
     @ replicate 10 (pt 0 0)"

text \<open>A jaw outline of seventeen points from \<open>x = 0\<close> to \<open>x = 100\<close>, and a nose of
  nine points with its tip at \<open>x = n\<close>: \<open>noseRelX\<close> is \<open>n / 100\<close>.\<close>

definition sampleJaw :: "point list" where
  "sampleJaw = pt 0 0 # replicate 15 (pt 50 80) @ [pt 100 0]"

definition sampleNose :: "real \<Rightarrow> point list" where
  "sampleNose n = replicate 3 (pt 50 40) @ [pt n 50] @ replicate 5 (pt 50 55)"

definition sampleFace :: "real \<Rightarrow> real \<Rightarrow> real \<Rightarrow> landmarks" where
  "sampleFace ear mar n =
     \<lparr>getLeftEye = sampleEye ear, getRightEye = sampleEye ear,
      getMouth = sampleMouth mar, getNose = sampleNose n, getJawOutline = sampleJaw\<rparr>"

text \<open>Eyes whose six points coincide, and eyes whose corners are a billionth of a pixel apart with
  the lids shut.\<close>

definition coincidentEye :: "point list" where
  "coincidentEye = replicate 6 (pt 0 0)"

definition narrowEye :: "point list" where
  "narrowEye = [pt 0 0, pt 0 0, pt 0 0, pt (1 / 10 ^ 9) 0, pt 0 0, pt 0 0]"

definition narrowEyedFace :: landmarks where
  "narrowEyedFace = (sampleFace 0 0 50)\<lparr>getLeftEye := narrowEye, getRightEye := narrowEye\<rparr>"

text \<open>The variables right after \<open>startLivenessTest\<close>, and in each later state.\<close>

definition freshSession :: session where
  "freshSession =
     \<lparr>state = BLINK, blinkCounter = 0, mouthOpenCounter = 0,
      headShakeData = \<lparr>left = 0, right = 0, lastX = 0\<rparr>,
      bestFace = \<lparr>blob = None, score = 0\<rparr>,
      statusEl = StatusInitial, console = [], img_BestFace = None,
      pendingCaptures = []\<rparr>"

definition sessionIn :: "session_state \<Rightarrow> session" where
  "sessionIn st = freshSession\<lparr>state := st\<rparr>"

definition sampleTick :: "real \<Rightarrow> real \<Rightarrow> tick" where
  "sampleTick sc n =
     \<lparr>videoStopped = False,
      detections = [\<lparr>detectionScore = sc, faceLandmarks = sampleFace (4 / 10) 0 n\<rparr>],
      encoded = Some (Blob 1), dateNow = 1000\<rparr>"

section \<open>Facts about the geometry helpers and the sample inputs\<close>

lemma dist_pt_nonneg: "0 \<le> dist_pt p q"
  by (simp add: dist_pt_def)

lemma dist_pt_same_y: "py p = py q \<Longrightarrow> dist_pt p q = \<bar>px p - px q\<bar>"
  by (simp add: dist_pt_def)

lemma dist_pt_same_x: "px p = px q \<Longrightarrow> dist_pt p q = \<bar>py p - py q\<bar>"
  by (simp add: dist_pt_def)

lemma getEAR_sampleEye: "getEAR (sampleEye h) = Some (Fin \<bar>h\<bar>)"
  by (simp add: getEAR_def sampleEye_def elemAt_def pt_def dist_pt_same_x dist_pt_same_y)

lemma getMAR_sampleMouth: "getMAR (sampleMouth h) = Some (Fin \<bar>h\<bar>)"
  by (simp add: getMAR_def sampleMouth_def elemAt_def pt_def dist_pt_same_x dist_pt_same_y)

lemma noseRelX_sampleFace: "noseRelX (sampleFace e m n) = Some (Fin (n / 100))"
  by (simp add: noseRelX_def sampleFace_def sampleJaw_def sampleNose_def elemAt_def pt_def nth_append)

lemma avgEAR_sampleFace: "avgEAR (sampleFace e m n) = Some (Fin \<bar>e\<bar>)"
  by (simp add: avgEAR_def sampleFace_def getEAR_sampleEye)

lemma getEAR_coincidentEye: "getEAR coincidentEye = Some NaN"
  by (simp add: getEAR_def coincidentEye_def elemAt_def pt_def dist_pt_def)

lemma getEAR_narrowEye: "getEAR narrowEye = Some (Fin 0)"
  by (simp add: getEAR_def narrowEye_def elemAt_def pt_def dist_pt_same_y)

lemma mouthOpenFrame_sampleFace: "mouthOpenFrame (sampleFace e m n) = (3 / 10 < \<bar>m\<bar>)"
  by (simp add: mouthOpenFrame_def sampleFace_def getMAR_sampleMouth jgt_def
      MOUTH_OPEN_THRESHOLD_def)

lemma mouthShutFrame_sampleFace: "mouthShutFrame (sampleFace e m n) = (\<bar>m\<bar> \<le> 3 / 10)"
  by (auto simp: mouthShutFrame_def sampleFace_def getMAR_sampleMouth jle_def
      MOUTH_OPEN_THRESHOLD_def)

lemma eyesClosedFrame_sampleFace: "eyesClosedFrame (sampleFace e m n) = (\<bar>e\<bar> < 3 / 10)"
  by (simp add: eyesClosedFrame_def avgEAR_sampleFace BLINK_THRESHOLD_def)

lemma eyesOpenFrame_sampleFace: "eyesOpenFrame (sampleFace e m n) = (3 / 10 \<le> \<bar>e\<bar>)"
  by (auto simp: eyesOpenFrame_def avgEAR_sampleFace BLINK_THRESHOLD_def jge_def jle_def)

lemma getMAR_sampleFace: "getMAR (getMouth (sampleFace e m n)) = Some (Fin \<bar>m\<bar>)"
  by (simp add: sampleFace_def getMAR_sampleMouth)

section \<open>One frame of each detector\<close>

lemma jge_not_jlt: "jge a b \<Longrightarrow> \<not> jlt a b"
  by (cases a; cases b) (auto simp: jge_def jle_def)

lemma jle_not_jgt: "jle a b \<Longrightarrow> \<not> jgt a b"
  by (cases a; cases b) (auto simp: jgt_def jle_def)

lemma processLiveness_blink_closed:
  assumes "state s = BLINK" "avgEAR lm = Some a" "jlt a BLINK_THRESHOLD"
  shows "processLiveness lm now s =
           Some (s\<lparr>blinkCounter := blinkCounter s + 1,
                   statusEl := EyesClosed (blinkCounter s + 1) a\<rparr>)"
  using assms by (simp add: processLiveness_def)

lemma processLiveness_blink_open:
  assumes "state s = BLINK" "avgEAR lm = Some a" "\<not> jlt a BLINK_THRESHOLD"
  shows "processLiveness lm now s =
           Some (if 1 \<le> blinkCounter s
                 then s\<lparr>console := console s @ [BlinkDetected], state := MOUTH, blinkCounter := 0\<rparr>
                 else s\<lparr>blinkCounter := 0, statusEl := EyesOpen a\<rparr>)"
  using assms by (simp add: processLiveness_def updateUI_def Let_def)

lemma processLiveness_mouth_open:
  assumes "state s = MOUTH" "getMAR (getMouth lm) = Some m" "jgt m MOUTH_OPEN_THRESHOLD"
  shows "processLiveness lm now s =
           Some (s\<lparr>mouthOpenCounter := mouthOpenCounter s + 1,
                   statusEl := MouthOpen (mouthOpenCounter s + 1) m\<rparr>)"
  using assms by (simp add: processLiveness_def)

lemma processLiveness_mouth_shut:
  assumes "state s = MOUTH" "getMAR (getMouth lm) = Some m" "\<not> jgt m MOUTH_OPEN_THRESHOLD"
  shows "processLiveness lm now s =
           Some (if 2 < mouthOpenCounter s
                 then s\<lparr>console := console s @ [MouthOpenDetected], state := SHAKE,
                        mouthOpenCounter := 0\<rparr>
                 else s\<lparr>mouthOpenCounter := 0, statusEl := MouthClosed m\<rparr>)"
  using assms by (simp add: processLiveness_def updateUI_def Let_def)

section \<open>The mouth-open challenge\<close>

lemma processFrames_append:
  "processFrames (fs @ gs) s =
     (case processFrames fs s of None \<Rightarrow> None | Some s' \<Rightarrow> processFrames gs s')"
  by (induction fs arbitrary: s) (auto split: option.splits)

lemma processFrames_mouth_opens:
  assumes "state s = MOUTH" "\<forall>f \<in> set opens. mouthOpenFrame (fst f)"
  shows "\<exists>s1. processFrames opens s = Some s1 \<and> state s1 = MOUTH
           \<and> console s1 = console s
           \<and> mouthOpenCounter s1 = mouthOpenCounter s + length opens"
  using assms
proof (induction opens arbitrary: s)
  case Nil
  then show ?case by simp
next
  case (Cons f fs)
  obtain lm now where f: "f = (lm, now)" by (cases f)
  from Cons.prems f obtain m where m: "getMAR (getMouth lm) = Some m" "jgt m MOUTH_OPEN_THRESHOLD"
    by (auto simp: mouthOpenFrame_def split: option.splits)
  let ?s = "s\<lparr>mouthOpenCounter := mouthOpenCounter s + 1,
               statusEl := MouthOpen (mouthOpenCounter s + 1) m\<rparr>"
  have step: "processLiveness lm now s = Some ?s"
    using processLiveness_mouth_open [OF Cons.prems(1) m] .
  have "state ?s = MOUTH" using Cons.prems(1) by simp
  moreover have "\<forall>g \<in> set fs. mouthOpenFrame (fst g)" using Cons.prems(2) by simp
  ultimately obtain s1 where s1: "processFrames fs ?s = Some s1" "state s1 = MOUTH"
      "console s1 = console ?s" "mouthOpenCounter s1 = mouthOpenCounter ?s + length fs"
    using Cons.IH by blast
  show ?case using f step s1 by simp
qed

lemma processLiveness_after_mouth:
  assumes "state s = SHAKE \<or> state s = COMPLETED" "processLiveness lm now s = Some s'"
  shows "(state s' = SHAKE \<or> state s' = COMPLETED)
           \<and> count_list (console s') MouthOpenDetected = count_list (console s) MouthOpenDetected"
  using assms
  by (auto simp: processLiveness_def updateUI_def onCompleted_def uploadFace_def Let_def
           split: option.splits if_splits Option.bind_splits)

lemma processFrames_after_mouth:
  assumes "state s = SHAKE \<or> state s = COMPLETED" "processFrames fs s = Some s'"
  shows "count_list (console s') MouthOpenDetected = count_list (console s) MouthOpenDetected"
  using assms
proof (induction fs arbitrary: s)
  case Nil
  then show ?case by simp
next
  case (Cons f fs)
  obtain lm now where f: "f = (lm, now)" by (cases f)
  from Cons.prems(2) f obtain s1 where s1: "processLiveness lm now s = Some s1"
      "processFrames fs s1 = Some s'"
    by (auto split: option.splits)
  from processLiveness_after_mouth [OF Cons.prems(1) s1(1)] Cons.IH [OF _ s1(2)]
  show ?case by simp
qed

text \<open>
  Claim C1, as the code has it. The claim puts the bound at four open frames; the code
  tests \<open>mouthOpenCounter > 2\<close>, so three are enough. In state \<open>MOUTH\<close> with the
  counter at zero, a run of frames with \<open>MAR > 0.30\<close> emits nothing and leaves the
  state at \<open>MOUTH\<close>. The first frame after it with \<open>MAR \<le> 0.30\<close> resets the
  counter; when the run had fewer than three frames it emits nothing, and when it had
  three or more it logs the mouth edge once and moves the session to \<open>SHAKE\<close>, after
  which no later frame logs that edge again.
\<close>

theorem mouth_edge_after_three_open_frames:
  assumes "state s = MOUTH" and "mouthOpenCounter s = 0"
    and "\<forall>f \<in> set opens. mouthOpenFrame (fst f)" and "mouthShutFrame lm"
  shows "map_option state (processFrames opens s) = Some MOUTH
       \<and> map_option console (processFrames opens s) = Some (console s)
       \<and> map_option state (processFrames (opens @ [(lm, now)]) s)
           = Some (if 3 \<le> length opens then SHAKE else MOUTH)
       \<and> map_option console (processFrames (opens @ [(lm, now)]) s)
           = Some (if 3 \<le> length opens then console s @ [MouthOpenDetected] else console s)
       \<and> map_option mouthOpenCounter (processFrames (opens @ [(lm, now)]) s) = Some 0
       \<and> (3 \<le> length opens \<longrightarrow>
            (\<forall>rest s'. processFrames (opens @ (lm, now) # rest) s = Some s' \<longrightarrow>
               count_list (console s') MouthOpenDetected
                 = count_list (console s) MouthOpenDetected + 1))"
proof -
  obtain s1 where s1: "processFrames opens s = Some s1" "state s1 = MOUTH"
      "console s1 = console s" "mouthOpenCounter s1 = length opens"
    using processFrames_mouth_opens [OF assms(1) assms(3)] assms(2) by auto
  from assms(4) obtain m where m: "getMAR (getMouth lm) = Some m" "jle m MOUTH_OPEN_THRESHOLD"
    by (auto simp: mouthShutFrame_def split: option.splits)
  let ?s2 = "if 2 < mouthOpenCounter s1
             then s1\<lparr>console := console s1 @ [MouthOpenDetected], state := SHAKE,
                     mouthOpenCounter := 0\<rparr>
             else s1\<lparr>mouthOpenCounter := 0, statusEl := MouthClosed m\<rparr>"
  have step: "processLiveness lm now s1 = Some ?s2"
    using processLiveness_mouth_shut [OF s1(2) m(1) jle_not_jgt [OF m(2)]] .
  have run: "processFrames (opens @ [(lm, now)]) s = Some ?s2"
    using s1(1) step by (simp add: processFrames_append)
  have later: "count_list (console s') MouthOpenDetected
                 = count_list (console s) MouthOpenDetected + 1"
    if "3 \<le> length opens" "processFrames (opens @ (lm, now) # rest) s = Some s'" for rest s'
  proof -
    from that(2) s1(1) step have "processFrames rest ?s2 = Some s'"
      by (simp add: processFrames_append)
    moreover have "state ?s2 = SHAKE" using that(1) s1(4) by simp
    ultimately have "count_list (console s') MouthOpenDetected
                       = count_list (console ?s2) MouthOpenDetected"
      using processFrames_after_mouth by blast
    then show ?thesis using that(1) s1(3,4) by simp
  qed
  have a: "map_option state (processFrames opens s) = Some MOUTH"
    and b: "map_option console (processFrames opens s) = Some (console s)"
    using s1 by simp_all
  have c: "map_option state (processFrames (opens @ [(lm, now)]) s)
             = Some (if 3 \<le> length opens then SHAKE else MOUTH)"
    unfolding run using s1(2,4) by auto
  have d: "map_option console (processFrames (opens @ [(lm, now)]) s)
             = Some (if 3 \<le> length opens then console s @ [MouthOpenDetected] else console s)"
    unfolding run using s1(3,4) by auto
  have e: "map_option mouthOpenCounter (processFrames (opens @ [(lm, now)]) s) = Some 0"
    unfolding run by simp
  from a b c d e later show ?thesis by blast
qed

text \<open>Two and three open frames, each followed by a shut one.\<close>

theorem mouth_edge_after_three_open_frames_witness:
  "state (sessionIn MOUTH) = MOUTH
   \<and> mouthOpenCounter (sessionIn MOUTH) = 0
   \<and> list_all (\<lambda>f. mouthOpenFrame (fst f))
        [(sampleFace (4 / 10) (5 / 10) 50, 0), (sampleFace (4 / 10) (5 / 10) 50, 50),
         (sampleFace (4 / 10) (5 / 10) 50, 100)]
   \<and> mouthShutFrame (sampleFace (4 / 10) (1 / 10) 50)
   \<and> map_option state
        (processFrames
           ([(sampleFace (4 / 10) (5 / 10) 50, 0), (sampleFace (4 / 10) (5 / 10) 50, 50),
             (sampleFace (4 / 10) (5 / 10) 50, 100)] @ [(sampleFace (4 / 10) (1 / 10) 50, 150)])
           (sessionIn MOUTH)) = Some SHAKE
   \<and> map_option state
        (processFrames
           ([(sampleFace (4 / 10) (5 / 10) 50, 0), (sampleFace (4 / 10) (5 / 10) 50, 50)]
            @ [(sampleFace (4 / 10) (1 / 10) 50, 100)])
           (sessionIn MOUTH)) = Some MOUTH"
proof -
  let ?o = "sampleFace (4 / 10) (5 / 10) 50" and ?c = "sampleFace (4 / 10) (1 / 10) 50"
  have h1: "state (sessionIn MOUTH) = MOUTH" and h2: "mouthOpenCounter (sessionIn MOUTH) = 0"
    by (simp_all add: sessionIn_def freshSession_def)
  have h3: "\<forall>f \<in> set [(?o, 0::int), (?o, 50), (?o, 100)]. mouthOpenFrame (fst f)"
    and h3': "\<forall>f \<in> set [(?o, 0::int), (?o, 50)]. mouthOpenFrame (fst f)"
    by (simp_all add: mouthOpenFrame_sampleFace)
  have h4: "mouthShutFrame ?c" by (simp add: mouthShutFrame_sampleFace)
  from mouth_edge_after_three_open_frames [OF h1 h2 h3 h4, of 150]
       mouth_edge_after_three_open_frames [OF h1 h2 h3' h4, of 100]
  show ?thesis using h1 h2 h3 h4 by simp
qed

text \<open>
  Against the claim as written: three open frames are fewer than four, and the shut
  frame after them emits the edge.
\<close>

theorem mouth_edge_after_three_open_frames_counterexample:
  "mouthOpenFrame (sampleFace (4 / 10) (5 / 10) 50)
   \<and> mouthShutFrame (sampleFace (4 / 10) (1 / 10) 50)
   \<and> state (sessionIn MOUTH) = MOUTH
   \<and> mouthOpenCounter (sessionIn MOUTH) = 0
   \<and> map_option state
        (processFrames
           [(sampleFace (4 / 10) (5 / 10) 50, 0), (sampleFace (4 / 10) (5 / 10) 50, 50),
            (sampleFace (4 / 10) (5 / 10) 50, 100), (sampleFace (4 / 10) (1 / 10) 50, 150)]
           (sessionIn MOUTH)) = Some SHAKE
   \<and> map_option console
        (processFrames
           [(sampleFace (4 / 10) (5 / 10) 50, 0), (sampleFace (4 / 10) (5 / 10) 50, 50),
            (sampleFace (4 / 10) (5 / 10) 50, 100), (sampleFace (4 / 10) (1 / 10) 50, 150)]
           (sessionIn MOUTH)) = Some [MouthOpenDetected]"
  by (simp add: mouthOpenFrame_sampleFace mouthShutFrame_sampleFace processLiveness_def
      getMAR_sampleFace sessionIn_def freshSession_def updateUI_def jgt_def
      MOUTH_OPEN_THRESHOLD_def)

section \<open>The blink challenge\<close>

text \<open>
  Claim C4. In state \<open>BLINK\<close>, a frame whose average EAR is below \<open>0.30\<close> counts
  one closed frame and emits nothing; when the next frame has an average EAR of at least
  \<open>0.30\<close>, that frame logs the blink edge once, moves the session from \<open>BLINK\<close> to
  \<open>MOUTH\<close> and resets \<open>blinkCounter\<close> to zero.
\<close>

theorem blink_edge_after_one_closed_frame:
  assumes "state s = BLINK" and "eyesClosedFrame lm1" and "eyesOpenFrame lm2"
  shows "map_option state (processFrames [(lm1, t1)] s) = Some BLINK
       \<and> map_option console (processFrames [(lm1, t1)] s) = Some (console s)
       \<and> map_option blinkCounter (processFrames [(lm1, t1)] s) = Some (blinkCounter s + 1)
       \<and> map_option state (processFrames [(lm1, t1), (lm2, t2)] s) = Some MOUTH
       \<and> map_option console (processFrames [(lm1, t1), (lm2, t2)] s)
           = Some (console s @ [BlinkDetected])
       \<and> map_option blinkCounter (processFrames [(lm1, t1), (lm2, t2)] s) = Some 0"
proof -
  from assms(2) obtain a1 where a1: "avgEAR lm1 = Some a1" "jlt a1 BLINK_THRESHOLD"
    by (auto simp: eyesClosedFrame_def split: option.splits)
  from assms(3) obtain a2 where a2: "avgEAR lm2 = Some a2" "jge a2 BLINK_THRESHOLD"
    by (auto simp: eyesOpenFrame_def split: option.splits)
  let ?s1 = "s\<lparr>blinkCounter := blinkCounter s + 1,
                statusEl := EyesClosed (blinkCounter s + 1) a1\<rparr>"
  have step1: "processLiveness lm1 t1 s = Some ?s1"
    using processLiveness_blink_closed [OF assms(1) a1] .
  have st1: "state ?s1 = BLINK" using assms(1) by simp
  have step2: "processLiveness lm2 t2 ?s1
                 = Some (?s1\<lparr>console := console ?s1 @ [BlinkDetected], state := MOUTH,
                             blinkCounter := 0\<rparr>)"
    using processLiveness_blink_open [OF st1 a2(1) jge_not_jlt [OF a2(2)], of t2] by simp
  show ?thesis
    using step1 step2 assms(1) by simp
qed

text \<open>The frames \<open>EAR = 0.2\<close>, \<open>EAR = 0.35\<close> on a fresh session.\<close>

theorem blink_edge_after_one_closed_frame_witness:
  "state freshSession = BLINK
   \<and> eyesClosedFrame (sampleFace (2 / 10) 0 50)
   \<and> eyesOpenFrame (sampleFace (35 / 100) 0 50)
   \<and> map_option state
        (processFrames [(sampleFace (2 / 10) 0 50, 0), (sampleFace (35 / 100) 0 50, 50)]
           freshSession) = Some MOUTH
   \<and> map_option console
        (processFrames [(sampleFace (2 / 10) 0 50, 0), (sampleFace (35 / 100) 0 50, 50)]
           freshSession) = Some [BlinkDetected]
   \<and> map_option blinkCounter
        (processFrames [(sampleFace (2 / 10) 0 50, 0), (sampleFace (35 / 100) 0 50, 50)]
           freshSession) = Some 0"
proof -
  have h1: "state freshSession = BLINK" by (simp add: freshSession_def)
  have h2: "eyesClosedFrame (sampleFace (2 / 10) 0 50)"
    by (simp add: eyesClosedFrame_sampleFace)
  have h3: "eyesOpenFrame (sampleFace (35 / 100) 0 50)"
    by (simp add: eyesOpenFrame_sampleFace)
  have c: "console freshSession = []" by (simp add: freshSession_def)
  from blink_edge_after_one_closed_frame [OF h1 h2 h3, of 0 50]
  show ?thesis using h1 h2 h3 c by simp
qed

section \<open>The head-shake challenge\<close>

lemma processLiveness_shake:
  assumes "state s = SHAKE" "noseRelX lm = Some nr"
  shows "processLiveness lm now s =
           Some (let h0 = headShakeData s;
                     h1 = (if jlt nr (Fin (4 / 10)) then h0\<lparr>left := now\<rparr> else h0);
                     h2 = (if jgt nr (Fin (6 / 10)) then h1\<lparr>right := now\<rparr> else h1);
                     s1 = s\<lparr>headShakeData := h2\<rparr>
                 in if left h2 \<noteq> 0 \<and> right h2 \<noteq> 0 \<and> \<bar>left h2 - right h2\<bar> < 2000
                    then updateUI (s1\<lparr>console := console s1 @ [ShakeDetected],
                                     state := COMPLETED\<rparr>)
                    else s1)"
  using assms by (simp add: processLiveness_def Let_def)

lemma updateUI_keeps:
  "state (updateUI s) = state s" "headShakeData (updateUI s) = headShakeData s"
  "blinkCounter (updateUI s) = blinkCounter s" "mouthOpenCounter (updateUI s) = mouthOpenCounter s"
  "bestFace (updateUI s) = bestFace s"
  by (simp_all add: updateUI_def onCompleted_def uploadFace_def split: option.splits)

lemma updateUI_count_ShakeDetected:
  "count_list (console (updateUI s)) ShakeDetected = count_list (console s) ShakeDetected"
  by (simp add: updateUI_def onCompleted_def uploadFace_def split: option.splits)

text \<open>
  Claim C5. In state \<open>SHAKE\<close> a frame with \<open>noseRelX < 0.4\<close> stores the clock in
  \<open>headShakeData.left\<close>, one with \<open>noseRelX > 0.6\<close> stores it in
  \<open>headShakeData.right\<close>, and no frame changes them in another way: they are never
  reset. The frame logs the shake edge and completes the session exactly when, after
  the update, both timestamps are non-zero and less than 2000 ms apart. With the left
  turn seen at \<open>t\<close> (a clock reading, so positive) and the right turn at
  \<open>t + 1999\<close> it fires; with the right turn at \<open>t + 2001\<close> it does not.
\<close>

theorem shake_timestamps_and_window:
  assumes "state s = SHAKE" and "noseRelX lm = Some nr"
  shows "\<exists>s'. processLiveness lm now s = Some s'
     \<and> left (headShakeData s')
         = (if jlt nr (Fin (4 / 10)) then now else left (headShakeData s))
     \<and> right (headShakeData s')
         = (if jgt nr (Fin (6 / 10)) then now else right (headShakeData s))
     \<and> state s'
         = (if left (headShakeData s') \<noteq> 0 \<and> right (headShakeData s') \<noteq> 0
               \<and> \<bar>left (headShakeData s') - right (headShakeData s')\<bar> < 2000
            then COMPLETED else SHAKE)
     \<and> count_list (console s') ShakeDetected
         = count_list (console s) ShakeDetected + (if state s' = COMPLETED then 1 else 0)
     \<and> (\<forall>t. 0 < t \<and> left (headShakeData s') = t \<and> right (headShakeData s') = t + 1999
            \<longrightarrow> state s' = COMPLETED)
     \<and> (\<forall>t. left (headShakeData s') = t \<and> right (headShakeData s') = t + 2001
            \<longrightarrow> state s' = SHAKE)"
proof -
  define l' where "l' = (if jlt nr (Fin (4 / 10)) then now else left (headShakeData s))"
  define r' where "r' = (if jgt nr (Fin (6 / 10)) then now else right (headShakeData s))"
  define s1 where "s1 = s\<lparr>headShakeData := (headShakeData s)\<lparr>left := l', right := r'\<rparr>\<rparr>"
  define s' where "s' = (if l' \<noteq> 0 \<and> r' \<noteq> 0 \<and> \<bar>l' - r'\<bar> < 2000
      then updateUI (s1\<lparr>console := console s1 @ [ShakeDetected], state := COMPLETED\<rparr>)
      else s1)"
  have run: "processLiveness lm now s = Some s'"
    unfolding processLiveness_shake [OF assms] s'_def s1_def l'_def r'_def
    by (simp add: Let_def)
  have hs: "headShakeData s' = (headShakeData s)\<lparr>left := l', right := r'\<rparr>"
    by (simp add: s'_def s1_def updateUI_keeps)
  have l: "left (headShakeData s') = l'" and r: "right (headShakeData s') = r'"
    by (simp_all add: hs)
  have st: "state s' = (if l' \<noteq> 0 \<and> r' \<noteq> 0 \<and> \<bar>l' - r'\<bar> < 2000 then COMPLETED else SHAKE)"
    by (simp add: s'_def s1_def updateUI_keeps assms(1))
  have co: "count_list (console s') ShakeDetected
              = count_list (console s) ShakeDetected + (if state s' = COMPLETED then 1 else 0)"
    unfolding st by (simp add: s'_def s1_def updateUI_count_ShakeDetected)
  have fires: "state s' = COMPLETED" if "0 < t \<and> l' = t \<and> r' = t + 1999" for t
    using that by (simp add: st)
  have misses: "state s' = SHAKE" if "l' = t \<and> r' = t + 2001" for t
    using that by (simp add: st)
  show ?thesis
    using run l r st co fires misses unfolding l'_def r'_def by (intro exI [of _ s']) simp
qed

text \<open>A left turn stored at 1000 ms and a right turn seen at 2999 ms, or at 3001 ms.\<close>

theorem shake_timestamps_and_window_witness:
  "state ((sessionIn SHAKE)\<lparr>headShakeData := \<lparr>left = 1000, right = 0, lastX = 0\<rparr>\<rparr>) = SHAKE
   \<and> noseRelX (sampleFace (4 / 10) 0 70) = Some (Fin (70 / 100))
   \<and> map_option state
        (processLiveness (sampleFace (4 / 10) 0 70) 2999
           ((sessionIn SHAKE)\<lparr>headShakeData := \<lparr>left = 1000, right = 0, lastX = 0\<rparr>\<rparr>))
        = Some COMPLETED
   \<and> map_option state
        (processLiveness (sampleFace (4 / 10) 0 70) 3001
           ((sessionIn SHAKE)\<lparr>headShakeData := \<lparr>left = 1000, right = 0, lastX = 0\<rparr>\<rparr>))
        = Some SHAKE
   \<and> map_option (\<lambda>s'. (left (headShakeData s'), right (headShakeData s')))
        (processLiveness (sampleFace (4 / 10) 0 70) 3001
           ((sessionIn SHAKE)\<lparr>headShakeData := \<lparr>left = 1000, right = 0, lastX = 0\<rparr>\<rparr>))
        = Some (1000, 3001)"
proof -
  let ?s = "(sessionIn SHAKE)\<lparr>headShakeData := \<lparr>left = 1000, right = 0, lastX = 0\<rparr>\<rparr>"
  let ?lm = "sampleFace (4 / 10) 0 70"
  have h1: "state ?s = SHAKE" by (simp add: sessionIn_def freshSession_def)
  have h2: "noseRelX ?lm = Some (Fin (70 / 100))" by (rule noseRelX_sampleFace)
  have hs: "headShakeData ?s = \<lparr>left = 1000, right = 0, lastX = 0\<rparr>" by simp
  obtain s' where a: "processLiveness ?lm 2999 ?s = Some s'" "state s' = COMPLETED"
    using shake_timestamps_and_window [OF h1 h2, of 2999] by (auto simp: jgt_def)
  obtain s'' where b: "processLiveness ?lm 3001 ?s = Some s''" "state s'' = SHAKE"
      "left (headShakeData s'') = 1000" "right (headShakeData s'') = 3001"
    using shake_timestamps_and_window [OF h1 h2, of 3001] by (auto simp: jgt_def)
  show ?thesis using h1 h2 a b by simp
qed

section \<open>What one frame and one tick change\<close>

lemma updateUI_pending: "pendingCaptures (updateUI s) = pendingCaptures s"
  by (simp add: updateUI_def onCompleted_def uploadFace_def split: option.splits)

lemma processLiveness_frame:
  assumes "processLiveness lm now s = Some s'"
  shows "bestFace s' = bestFace s"
    and "state s' = state s \<or> (state s, state s') \<in> forwardSteps"
    and "state s \<noteq> BLINK \<Longrightarrow> blinkCounter s' = blinkCounter s"
    and "state s \<noteq> MOUTH \<Longrightarrow> mouthOpenCounter s' = mouthOpenCounter s"
    and "state s \<noteq> SHAKE \<Longrightarrow> headShakeData s' = headShakeData s"
    and "pendingCaptures s' = pendingCaptures s"
  using assms
  by (auto simp: processLiveness_def updateUI_keeps updateUI_pending forwardSteps_def Let_def
           split: if_splits Option.bind_splits)

lemma captureBestFace_frame:
  assumes "captureBestFace d enc s = Some s1"
  shows "state s1 = state s" and "blinkCounter s1 = blinkCounter s"
    and "mouthOpenCounter s1 = mouthOpenCounter s" and "headShakeData s1 = headShakeData s"
    and "bestFace s1 = bestFace s"
    and "pendingCaptures s1 =
           (if frontalFrame (faceLandmarks d) \<and> score (bestFace s) < detectionScore d
            then pendingCaptures s @ [(detectionScore d, enc)] else pendingCaptures s)"
  using assms
  by (auto simp: captureBestFace_def frontalFrame_def Let_def
           split: if_splits option.splits Option.bind_splits)

lemma captureBestFace_raises:
  "captureBestFace d enc s = None \<Longrightarrow> \<not> frontalFrame (faceLandmarks d)"
  by (auto simp: captureBestFace_def frontalFrame_def Let_def split: Option.bind_splits)

lemma tick_request:
  assumes "\<not> videoStopped t" and "detections t = face # others"
  shows "bestFace (onVideoPlay_tick t s) = bestFace s
       \<and> pendingCaptures (onVideoPlay_tick t s) =
           (if (state s = READY \<or> state s = BLINK \<or> state s = MOUTH)
               \<and> frontalFrame (faceLandmarks face)
               \<and> score (bestFace s) < detectionScore face
            then pendingCaptures s @ [(detectionScore face, encoded t)]
            else pendingCaptures s)"
proof (cases "state s \<noteq> SHAKE \<and> state s \<noteq> COMPLETED \<and> state s \<noteq> LOADING")
  case False
  then have st: "\<not> (state s = READY \<or> state s = BLINK \<or> state s = MOUTH)" by auto
  show ?thesis
  proof (cases "processLiveness (faceLandmarks face) (dateNow t) s")
    case None
    then have "onVideoPlay_tick t s = s"
      using assms False by (auto simp: onVideoPlay_tick_def)
    then show ?thesis using st by simp
  next
    case (Some s2)
    then have "onVideoPlay_tick t s = s2\<lparr>statusEl := FaceDetected\<rparr>"
      using assms False by (auto simp: onVideoPlay_tick_def)
    then show ?thesis using st processLiveness_frame(1,6) [OF Some] by simp
  qed
next
  case True
  then have st: "state s = READY \<or> state s = BLINK \<or> state s = MOUTH"
    by (cases "state s") auto
  show ?thesis
  proof (cases "captureBestFace face (encoded t) s")
    case None
    then have "onVideoPlay_tick t s = s"
      using assms True by (simp add: onVideoPlay_tick_def)
    then show ?thesis using captureBestFace_raises [OF None] by simp
  next
    case (Some s1)
    note cap = captureBestFace_frame(5,6) [OF Some]
    show ?thesis
    proof (cases "processLiveness (faceLandmarks face) (dateNow t) s1")
      case None
      then have "onVideoPlay_tick t s = s1"
        using assms True Some by (simp add: onVideoPlay_tick_def)
      then show ?thesis using cap st by simp
    next
      case (Some s2)
      then have "onVideoPlay_tick t s = s2\<lparr>statusEl := FaceDetected\<rparr>"
        using assms True \<open>captureBestFace face (encoded t) s = Some s1\<close>
        by (simp add: onVideoPlay_tick_def)
      then show ?thesis using cap st processLiveness_frame(1,6) [OF Some] by simp
    qed
  qed
qed

lemma toBlob_done_last:
  assumes "pendingCaptures s1 = ps @ [(sc, b)]"
  shows "bestFace (toBlob_done (length ps) s1) =
           (if b \<noteq> None then \<lparr>blob = b, score = sc\<rparr> else bestFace s1)"
  using assms by (auto simp: toBlob_done_def toBlob_callback_def)

lemma tick_best_face:
  assumes "\<not> videoStopped t" and "detections t = face # others"
  shows "bestFace (tickAndCapture t s) =
     (if (state s = READY \<or> state s = BLINK \<or> state s = MOUTH)
         \<and> frontalFrame (faceLandmarks face)
         \<and> score (bestFace s) < detectionScore face
         \<and> encoded t \<noteq> None
      then \<lparr>blob = encoded t, score = detectionScore face\<rparr>
      else bestFace s)"
proof (cases "(state s = READY \<or> state s = BLINK \<or> state s = MOUTH)
         \<and> frontalFrame (faceLandmarks face)
         \<and> score (bestFace s) < detectionScore face")
  case True
  then have p: "pendingCaptures (onVideoPlay_tick t s)
                  = pendingCaptures s @ [(detectionScore face, encoded t)]"
    using tick_request [OF assms, of s] by simp
  have "tickAndCapture t s = toBlob_done (length (pendingCaptures s)) (onVideoPlay_tick t s)"
    using p by (simp add: tickAndCapture_def Let_def)
  then show ?thesis
    using toBlob_done_last [OF p] tick_request [OF assms, of s] True by simp
next
  case False
  then have "pendingCaptures (onVideoPlay_tick t s) = pendingCaptures s"
    using tick_request [OF assms, of s] by auto
  then have "tickAndCapture t s = onVideoPlay_tick t s"
    by (simp add: tickAndCapture_def Let_def)
  then show ?thesis using tick_request [OF assms, of s] False by auto
qed

lemma stopped_tick: "videoStopped t \<Longrightarrow> onVideoPlay_tick t s = s"
  by (simp add: onVideoPlay_tick_def)

lemma no_face_tick:
  "detections t = [] \<Longrightarrow>
     onVideoPlay_tick t s = (if videoStopped t then s else s\<lparr>statusEl := NoFaceDetected\<rparr>)"
  by (simp add: onVideoPlay_tick_def)

lemma no_face_tick_main:
  "detections t = [] \<Longrightarrow>
     onVideoPlay_tick_main t s = (if videoStopped t then s else s\<lparr>statusEl := NoFaceDetected\<rparr>)"
  by (simp add: onVideoPlay_tick_main_def)

lemma tickAndCapture_idle:
  "videoStopped t \<or> detections t = [] \<Longrightarrow> tickAndCapture t s = onVideoPlay_tick t s"
  by (auto simp: tickAndCapture_def onVideoPlay_tick_def)

lemma tick_score:
  "score (bestFace (tickAndCapture t s)) = score (bestFace s)
     \<or> score (bestFace s) < score (bestFace (tickAndCapture t s))"
proof (cases "videoStopped t")
  case True
  then show ?thesis by (simp add: tickAndCapture_idle stopped_tick)
next
  case False
  show ?thesis
  proof (cases "detections t")
    case Nil
    then show ?thesis by (simp add: tickAndCapture_idle no_face_tick)
  next
    case (Cons face others)
    show ?thesis unfolding tick_best_face [OF False Cons] by simp
  qed
qed

lemma runTicks_score: "score (bestFace s) \<le> score (bestFace (runTicks ts s))"
proof (induction ts arbitrary: s)
  case Nil
  show ?case by simp
next
  case (Cons t ts)
  have "score (bestFace s) \<le> score (bestFace (tickAndCapture t s))"
    using tick_score [of t s] by auto
  also have "\<dots> \<le> score (bestFace (runTicks ts (tickAndCapture t s)))"
    by (rule Cons.IH)
  finally show ?case by simp
qed

lemma tick_shape:
  "\<exists>s1. (s1 = s \<or> (\<exists>d enc. captureBestFace d enc s = Some s1))
      \<and> (onVideoPlay_tick t s = s1
         \<or> onVideoPlay_tick t s = s1\<lparr>statusEl := NoFaceDetected\<rparr>
         \<or> (\<exists>lm now s2. processLiveness lm now s1 = Some s2
               \<and> onVideoPlay_tick t s = s2\<lparr>statusEl := FaceDetected\<rparr>))"
  unfolding onVideoPlay_tick_def
  by (cases "detections t"; cases "videoStopped t") (auto split: option.splits)

lemma tick_main_shape:
  "onVideoPlay_tick_main t s = s
     \<or> onVideoPlay_tick_main t s = s\<lparr>statusEl := NoFaceDetected\<rparr>
     \<or> (\<exists>lm now s2. processLiveness lm now s = Some s2
           \<and> onVideoPlay_tick_main t s = s2\<lparr>statusEl := FaceDetected\<rparr>)"
  unfolding onVideoPlay_tick_main_def
  by (cases "detections t"; cases "videoStopped t") (auto split: option.splits)

lemma tick_main_frame:
  "state (onVideoPlay_tick_main t s) = state s
     \<or> (state s, state (onVideoPlay_tick_main t s)) \<in> forwardSteps"
  "state s \<noteq> BLINK \<Longrightarrow> blinkCounter (onVideoPlay_tick_main t s) = blinkCounter s"
  "state s \<noteq> MOUTH \<Longrightarrow> mouthOpenCounter (onVideoPlay_tick_main t s) = mouthOpenCounter s"
  "state s \<noteq> SHAKE \<Longrightarrow> headShakeData (onVideoPlay_tick_main t s) = headShakeData s"
proof -
  consider (same) "onVideoPlay_tick_main t s = s"
    | (noface) "onVideoPlay_tick_main t s = s\<lparr>statusEl := NoFaceDetected\<rparr>"
    | (face) lm now s2 where "processLiveness lm now s = Some s2"
        "onVideoPlay_tick_main t s = s2\<lparr>statusEl := FaceDetected\<rparr>"
    using tick_main_shape [of t s] by blast
  note c = this
  show "state (onVideoPlay_tick_main t s) = state s
     \<or> (state s, state (onVideoPlay_tick_main t s)) \<in> forwardSteps"
    by (cases rule: c) (use processLiveness_frame(2) in fastforce)+
  show "blinkCounter (onVideoPlay_tick_main t s) = blinkCounter s" if "state s \<noteq> BLINK"
    by (cases rule: c) (use that processLiveness_frame(3) in fastforce)+
  show "mouthOpenCounter (onVideoPlay_tick_main t s) = mouthOpenCounter s" if "state s \<noteq> MOUTH"
    by (cases rule: c) (use that processLiveness_frame(4) in fastforce)+
  show "headShakeData (onVideoPlay_tick_main t s) = headShakeData s" if "state s \<noteq> SHAKE"
    by (cases rule: c) (use that processLiveness_frame(5) in fastforce)+
qed

lemma tick_frame:
  "state (onVideoPlay_tick t s) = state s
     \<or> (state s, state (onVideoPlay_tick t s)) \<in> forwardSteps"
  "state s \<noteq> BLINK \<Longrightarrow> blinkCounter (onVideoPlay_tick t s) = blinkCounter s"
  "state s \<noteq> MOUTH \<Longrightarrow> mouthOpenCounter (onVideoPlay_tick t s) = mouthOpenCounter s"
  "state s \<noteq> SHAKE \<Longrightarrow> headShakeData (onVideoPlay_tick t s) = headShakeData s"
proof -
  obtain s1 where s1: "s1 = s \<or> (\<exists>d enc. captureBestFace d enc s = Some s1)"
    and t: "onVideoPlay_tick t s = s1
         \<or> onVideoPlay_tick t s = s1\<lparr>statusEl := NoFaceDetected\<rparr>
         \<or> (\<exists>lm now s2. processLiveness lm now s1 = Some s2
               \<and> onVideoPlay_tick t s = s2\<lparr>statusEl := FaceDetected\<rparr>)"
    using tick_shape [of s t] by blast
  from s1 have core: "state s1 = state s" "blinkCounter s1 = blinkCounter s"
      "mouthOpenCounter s1 = mouthOpenCounter s" "headShakeData s1 = headShakeData s"
    by (auto dest: captureBestFace_frame(1-4))
  consider (same) "onVideoPlay_tick t s = s1"
    | (noface) "onVideoPlay_tick t s = s1\<lparr>statusEl := NoFaceDetected\<rparr>"
    | (face) lm now s2 where "processLiveness lm now s1 = Some s2"
        "onVideoPlay_tick t s = s2\<lparr>statusEl := FaceDetected\<rparr>"
    using t by blast
  note c = this
  show "state (onVideoPlay_tick t s) = state s
     \<or> (state s, state (onVideoPlay_tick t s)) \<in> forwardSteps"
    by (cases rule: c) (use core processLiveness_frame(2) in fastforce)+
  show "blinkCounter (onVideoPlay_tick t s) = blinkCounter s" if "state s \<noteq> BLINK"
    by (cases rule: c) (use that core processLiveness_frame(3) in fastforce)+
  show "mouthOpenCounter (onVideoPlay_tick t s) = mouthOpenCounter s" if "state s \<noteq> MOUTH"
    by (cases rule: c) (use that core processLiveness_frame(4) in fastforce)+
  show "headShakeData (onVideoPlay_tick t s) = headShakeData s" if "state s \<noteq> SHAKE"
    by (cases rule: c) (use that core processLiveness_frame(5) in fastforce)+
qed

lemma frontalFrame_sampleFace:
  "frontalFrame (sampleFace e m n) = (45 < n \<and> n < 55)"
  by (simp add: frontalFrame_def noseRelX_sampleFace isFrontal_def jgt_def)

lemma sampleTick_simps:
  "videoStopped (sampleTick sc n) = False"
  "detections (sampleTick sc n)
     = [\<lparr>detectionScore = sc, faceLandmarks = sampleFace (4 / 10) 0 n\<rparr>]"
  "encoded (sampleTick sc n) = Some (Blob 1)"
  "dateNow (sampleTick sc n) = 1000"
  by (simp_all add: sampleTick_def)

lemma sessionIn_simps:
  "state (sessionIn st) = st" "blinkCounter (sessionIn st) = 0"
  "mouthOpenCounter (sessionIn st) = 0"
  "headShakeData (sessionIn st) = \<lparr>left = 0, right = 0, lastX = 0\<rparr>"
  "bestFace (sessionIn st) = \<lparr>blob = None, score = 0\<rparr>"
  "console (sessionIn st) = []"
  "pendingCaptures (sessionIn st) = []"
  by (simp_all add: sessionIn_def freshSession_def)

lemma faceLandmarks_sample_simps:
  "avgEAR (sampleFace e m n) = Some (Fin \<bar>e\<bar>)"
  "getMAR (getMouth (sampleFace e m n)) = Some (Fin \<bar>m\<bar>)"
  "noseRelX (sampleFace e m n) = Some (Fin (n / 100))"
  by (rule avgEAR_sampleFace getMAR_sampleFace noseRelX_sampleFace)+

lemma restart_eq:
  "restart s =
     s\<lparr>state := BLINK, blinkCounter := 0, mouthOpenCounter := 0,
       headShakeData := \<lparr>left = 0, right = 0, lastX = 0\<rparr>,
       bestFace := \<lparr>blob = None, score = 0\<rparr>\<rparr>"
  by (simp add: restart_def startLivenessTest_def resetMetrics_def updateUI_def)

section \<open>The best-face capture\<close>

text \<open>
  Claim C3, as the code has it. The claim lets the tracker run in \<open>BLINK\<close>,
  \<open>MOUTH\<close> and \<open>SHAKE\<close> and takes the frontal band with its ends; the callback
  skips \<open>captureBestFace\<close> in \<open>SHAKE\<close>, \<open>COMPLETED\<close> and \<open>LOADING\<close>, and
  the band is \<open>0.45 < noseRelX < 0.55\<close>. On a tick with a detected face, taken with
  the callback of the capture it requests (\<open>tickAndCapture\<close>),
  \<open>bestFace\<close> is replaced, blob and score together, if and only if the state is
  \<open>BLINK\<close> or \<open>MOUTH\<close> (or \<open>READY\<close>, which no tick meets), the pose is frontal in
  that strict sense, the detection score is greater than \<open>bestFace.score\<close> and the
  encoder hands over a blob; in every other case \<open>bestFace\<close> is left as it was.
\<close>

theorem best_face_replacement:
  assumes "\<not> videoStopped t" and "detections t = face # others"
  shows "bestFace (tickAndCapture t s) =
     (if (state s = READY \<or> state s = BLINK \<or> state s = MOUTH)
         \<and> frontalFrame (faceLandmarks face)
         \<and> score (bestFace s) < detectionScore face
         \<and> encoded t \<noteq> None
      then \<lparr>blob = encoded t, score = detectionScore face\<rparr>
      else bestFace s)"
  using assms by (rule tick_best_face)

text \<open>A frontal face with score 0.9: it replaces an empty capture and not one with score 0.95.\<close>

theorem best_face_replacement_witness:
  "\<not> videoStopped (sampleTick (9 / 10) 50)
   \<and> detections (sampleTick (9 / 10) 50)
       = \<lparr>detectionScore = 9 / 10, faceLandmarks = sampleFace (4 / 10) 0 50\<rparr> # []
   \<and> bestFace (tickAndCapture (sampleTick (9 / 10) 50) (sessionIn MOUTH))
       = \<lparr>blob = Some (Blob 1), score = 9 / 10\<rparr>
   \<and> bestFace (tickAndCapture (sampleTick (9 / 10) 50)
        ((sessionIn BLINK)\<lparr>bestFace := \<lparr>blob = Some (Blob 0), score = 95 / 100\<rparr>\<rparr>))
       = \<lparr>blob = Some (Blob 0), score = 95 / 100\<rparr>"
proof -
  have h1: "\<not> videoStopped (sampleTick (9 / 10) 50)" by (simp add: sampleTick_simps)
  have h2: "detections (sampleTick (9 / 10) 50)
       = \<lparr>detectionScore = 9 / 10, faceLandmarks = sampleFace (4 / 10) 0 50\<rparr> # []"
    by (simp add: sampleTick_simps)
  from best_face_replacement [OF h1 h2, of "sessionIn MOUTH"]
       best_face_replacement [OF h1 h2,
         of "(sessionIn BLINK)\<lparr>bestFace := \<lparr>blob = Some (Blob 0), score = 95 / 100\<rparr>\<rparr>"]
  show ?thesis using h1 h2
    by (simp add: sessionIn_simps sampleTick_simps frontalFrame_sampleFace)
qed

text \<open>
  Against the claim as written: a frontal face with a higher score is not captured in
  state \<open>SHAKE\<close>, nor in state \<open>BLINK\<close>
  when \<open>noseRelX\<close> is exactly \<open>0.45\<close>, nor when the encoder hands over \<open>null\<close>.
\<close>

theorem best_face_replacement_counterexample:
  "frontalFrame (sampleFace (4 / 10) 0 50)
   \<and> score (bestFace (sessionIn SHAKE)) < 9 / 10
   \<and> bestFace (tickAndCapture (sampleTick (9 / 10) 50) (sessionIn SHAKE))
       = bestFace (sessionIn SHAKE)
   \<and> noseRelX (sampleFace (4 / 10) 0 45) = Some (Fin (45 / 100))
   \<and> score (bestFace (sessionIn BLINK)) < 9 / 10
   \<and> bestFace (tickAndCapture (sampleTick (9 / 10) 45) (sessionIn BLINK))
       = bestFace (sessionIn BLINK)
   \<and> bestFace (tickAndCapture ((sampleTick (9 / 10) 50)\<lparr>encoded := None\<rparr>) (sessionIn BLINK))
       = bestFace (sessionIn BLINK)"
  by (simp add: frontalFrame_sampleFace noseRelX_sampleFace sessionIn_simps sampleTick_simps
      tick_best_face)

section \<open>The session state machine\<close>

text \<open>
  Claim C6. Whatever the session and the tick, the callback leaves the state where it
  is or moves it one step forward along \<open>BLINK\<close>, \<open>MOUTH\<close>, \<open>SHAKE\<close>,
  \<open>COMPLETED\<close>; in \<open>COMPLETED\<close> no tick changes the state, and the restart
  handler sets it to \<open>BLINK\<close>. This holds for both versions of the callback.
\<close>

theorem session_state_moves_forward:
  "(state (onVideoPlay_tick t s) = state s
      \<or> (state s, state (onVideoPlay_tick t s)) \<in> forwardSteps)
   \<and> (state (onVideoPlay_tick_main t s) = state s
      \<or> (state s, state (onVideoPlay_tick_main t s)) \<in> forwardSteps)
   \<and> (state s = COMPLETED \<longrightarrow>
        state (onVideoPlay_tick t s) = COMPLETED
        \<and> state (onVideoPlay_tick_main t s) = COMPLETED)
   \<and> state (restart s) = BLINK"
proof -
  have fwd: "state (onVideoPlay_tick t s) = state s
      \<or> (state s, state (onVideoPlay_tick t s)) \<in> forwardSteps"
    by (rule tick_frame(1))
  have fwd_main: "state (onVideoPlay_tick_main t s) = state s
      \<or> (state s, state (onVideoPlay_tick_main t s)) \<in> forwardSteps"
    by (rule tick_main_frame(1))
  have stay: "state (onVideoPlay_tick t s) = COMPLETED
        \<and> state (onVideoPlay_tick_main t s) = COMPLETED" if "state s = COMPLETED"
    using fwd fwd_main that by (auto simp: forwardSteps_def)
  have "state (restart s) = BLINK" by (simp add: restart_eq)
  with fwd fwd_main stay show ?thesis by blast
qed

text \<open>A completed session, a tick with a face, and the restart.\<close>

theorem session_state_moves_forward_witness:
  "state (sessionIn COMPLETED) = COMPLETED
   \<and> state (onVideoPlay_tick (sampleTick (9 / 10) 30) (sessionIn COMPLETED)) = COMPLETED
   \<and> state (onVideoPlay_tick_main (sampleTick (9 / 10) 30) (sessionIn COMPLETED)) = COMPLETED
   \<and> state (restart (sessionIn COMPLETED)) = BLINK"
proof -
  have h: "state (sessionIn COMPLETED) = COMPLETED" by (simp add: sessionIn_simps)
  from session_state_moves_forward [of "sampleTick (9 / 10) 30" "sessionIn COMPLETED"] h
  show ?thesis by blast
qed

text \<open>
  Claim C7. A tick in which no face is detected changes nothing but the status line:
  the state, \<open>blinkCounter\<close>, \<open>mouthOpenCounter\<close>, the head-turn timestamps and
  \<open>bestFace\<close> (blob and score) stay exactly as they were, in both versions of the
  callback.
\<close>

theorem no_face_tick_changes_nothing:
  assumes "detections t = []"
  shows "onVideoPlay_tick t s = (if videoStopped t then s else s\<lparr>statusEl := NoFaceDetected\<rparr>)
       \<and> onVideoPlay_tick_main t s
           = (if videoStopped t then s else s\<lparr>statusEl := NoFaceDetected\<rparr>)
       \<and> state (onVideoPlay_tick t s) = state s
       \<and> blinkCounter (onVideoPlay_tick t s) = blinkCounter s
       \<and> mouthOpenCounter (onVideoPlay_tick t s) = mouthOpenCounter s
       \<and> headShakeData (onVideoPlay_tick t s) = headShakeData s
       \<and> bestFace (onVideoPlay_tick t s) = bestFace s
       \<and> console (onVideoPlay_tick t s) = console s"
  using assms by (simp add: no_face_tick no_face_tick_main)

text \<open>A session in \<open>MOUTH\<close> with two open frames counted, and a tick without a face.\<close>

theorem no_face_tick_changes_nothing_witness:
  "detections \<lparr>videoStopped = False, detections = [], encoded = Some (Blob 1), dateNow = 1000\<rparr>
     = []
   \<and> onVideoPlay_tick
        \<lparr>videoStopped = False, detections = [], encoded = Some (Blob 1), dateNow = 1000\<rparr>
        ((sessionIn MOUTH)\<lparr>mouthOpenCounter := 2\<rparr>)
       = (sessionIn MOUTH)\<lparr>mouthOpenCounter := 2, statusEl := NoFaceDetected\<rparr>"
proof -
  let ?t = "\<lparr>videoStopped = False, detections = [], encoded = Some (Blob 1), dateNow = 1000\<rparr>"
  have h: "detections ?t = []" by simp
  from no_face_tick_changes_nothing [OF h, of "(sessionIn MOUTH)\<lparr>mouthOpenCounter := 2\<rparr>"]
  show ?thesis using h by simp
qed

text \<open>
  Claim C8 asks that \<open>bestFace.score\<close> never decreases within a session. The code aims
  at it with the test \<open>score > bestFace.score\<close>, and when each capture is encoded
  before the next tick the score indeed never decreases (\<open>runTicks_score\<close>). But the
  test runs when \<open>captureBestFace\<close> is called and the write runs later, in the callback
  of \<open>toBlob\<close>, without a second test. With two captures in flight the claim fails:
  on a fresh session, a frontal face with score 0.9 and then one with score 0.8 both
  pass the test against \<open>0\<close>; the first callback sets the score to 0.9 and the second
  lowers it to 0.8, with no restart in between.
\<close>

theorem best_score_decreases_with_two_captures_in_flight:
  "pendingCaptures
     (runEvents
        [Tick (sampleTick (9 / 10) 50), Tick ((sampleTick (8 / 10) 50)\<lparr>encoded := Some (Blob 2)\<rparr>)]
        freshSession)
     = [(9 / 10, Some (Blob 1)), (8 / 10, Some (Blob 2))]
   \<and> bestFace
        (runEvents
           [Tick (sampleTick (9 / 10) 50), Tick ((sampleTick (8 / 10) 50)\<lparr>encoded := Some (Blob 2)\<rparr>)]
           freshSession)
       = \<lparr>blob = None, score = 0\<rparr>
   \<and> bestFace
        (runEvents
           [Tick (sampleTick (9 / 10) 50), Tick ((sampleTick (8 / 10) 50)\<lparr>encoded := Some (Blob 2)\<rparr>),
            BlobDone 0]
           freshSession)
       = \<lparr>blob = Some (Blob 1), score = 9 / 10\<rparr>
   \<and> bestFace
        (runEvents
           [Tick (sampleTick (9 / 10) 50), Tick ((sampleTick (8 / 10) 50)\<lparr>encoded := Some (Blob 2)\<rparr>),
            BlobDone 0, BlobDone 0]
           freshSession)
       = \<lparr>blob = Some (Blob 2), score = 8 / 10\<rparr>"
  by (simp add: onVideoPlay_tick_def sampleTick_simps captureBestFace_def processLiveness_def
      faceLandmarks_sample_simps freshSession_def isFrontal_def jgt_def BLINK_THRESHOLD_def
      toBlob_done_def toBlob_callback_def Let_def)

text \<open>
  Claim C9. The restart handler is idempotent: called once or twice in a row, from
  \<open>COMPLETED\<close> or from any other state, it yields the same clean session, with state
  \<open>BLINK\<close>, \<open>blinkCounter\<close> and \<open>mouthOpenCounter\<close> zero, both head-turn
  timestamps zero and \<open>bestFace\<close> back at its initial value.
\<close>

theorem restart_idempotent:
  "restart (restart s) = restart s
   \<and> restart s =
       s\<lparr>state := BLINK, blinkCounter := 0, mouthOpenCounter := 0,
         headShakeData := \<lparr>left = 0, right = 0, lastX = 0\<rparr>,
         bestFace := \<lparr>blob = None, score = 0\<rparr>\<rparr>"
  by (simp add: restart_eq)

text \<open>
  Claim C10. A tick changes the tracking state of at most one challenge, the one of the
  current session state: \<open>blinkCounter\<close> only in \<open>BLINK\<close>, \<open>mouthOpenCounter\<close>
  only in \<open>MOUTH\<close>, the two timestamps only in \<open>SHAKE\<close>. So the frame that
  satisfies a challenge does not advance the detector of the next one.
\<close>

theorem one_challenge_per_frame:
  "(state s \<noteq> BLINK \<longrightarrow>
      blinkCounter (onVideoPlay_tick t s) = blinkCounter s
      \<and> blinkCounter (onVideoPlay_tick_main t s) = blinkCounter s)
   \<and> (state s \<noteq> MOUTH \<longrightarrow>
      mouthOpenCounter (onVideoPlay_tick t s) = mouthOpenCounter s
      \<and> mouthOpenCounter (onVideoPlay_tick_main t s) = mouthOpenCounter s)
   \<and> (state s \<noteq> SHAKE \<longrightarrow>
      headShakeData (onVideoPlay_tick t s) = headShakeData s
      \<and> headShakeData (onVideoPlay_tick_main t s) = headShakeData s)"
  using tick_frame(2-4) [of s t] tick_main_frame(2-4) [of s t] by blast

text \<open>
  The frame that completes the blink leaves the mouth counter and the timestamps alone;
  the frame that completes the mouth challenge, with the head turned left, leaves the
  timestamps alone.
\<close>

theorem one_challenge_per_frame_witness:
  "state ((sessionIn BLINK)\<lparr>blinkCounter := 1\<rparr>) \<noteq> MOUTH
   \<and> state ((sessionIn BLINK)\<lparr>blinkCounter := 1\<rparr>) \<noteq> SHAKE
   \<and> state (onVideoPlay_tick (sampleTick (9 / 10) 30) ((sessionIn BLINK)\<lparr>blinkCounter := 1\<rparr>))
       = MOUTH
   \<and> mouthOpenCounter
        (onVideoPlay_tick (sampleTick (9 / 10) 30) ((sessionIn BLINK)\<lparr>blinkCounter := 1\<rparr>)) = 0
   \<and> headShakeData
        (onVideoPlay_tick (sampleTick (9 / 10) 30) ((sessionIn BLINK)\<lparr>blinkCounter := 1\<rparr>))
       = \<lparr>left = 0, right = 0, lastX = 0\<rparr>
   \<and> state ((sessionIn MOUTH)\<lparr>mouthOpenCounter := 3\<rparr>) \<noteq> BLINK
   \<and> state ((sessionIn MOUTH)\<lparr>mouthOpenCounter := 3\<rparr>) \<noteq> SHAKE
   \<and> state (onVideoPlay_tick (sampleTick (9 / 10) 30) ((sessionIn MOUTH)\<lparr>mouthOpenCounter := 3\<rparr>))
       = SHAKE
   \<and> blinkCounter
        (onVideoPlay_tick (sampleTick (9 / 10) 30) ((sessionIn MOUTH)\<lparr>mouthOpenCounter := 3\<rparr>)) = 0
   \<and> headShakeData
        (onVideoPlay_tick (sampleTick (9 / 10) 30) ((sessionIn MOUTH)\<lparr>mouthOpenCounter := 3\<rparr>))
       = \<lparr>left = 0, right = 0, lastX = 0\<rparr>
   \<and> state (sessionIn SHAKE) \<noteq> BLINK
   \<and> state (sessionIn SHAKE) \<noteq> MOUTH
   \<and> blinkCounter (onVideoPlay_tick (sampleTick (9 / 10) 30) (sessionIn SHAKE)) = 0
   \<and> mouthOpenCounter (onVideoPlay_tick (sampleTick (9 / 10) 30) (sessionIn SHAKE)) = 0"
proof -
  let ?t = "sampleTick (9 / 10) 30"
  let ?b = "(sessionIn BLINK)\<lparr>blinkCounter := 1\<rparr>"
  let ?m = "(sessionIn MOUTH)\<lparr>mouthOpenCounter := 3\<rparr>"
  have hb: "state ?b \<noteq> MOUTH" "state ?b \<noteq> SHAKE"
    and hm: "state ?m \<noteq> BLINK" "state ?m \<noteq> SHAKE"
    and hs: "state (sessionIn SHAKE) \<noteq> BLINK" "state (sessionIn SHAKE) \<noteq> MOUTH"
    by (simp_all add: sessionIn_simps)
  have eb: "state (onVideoPlay_tick ?t ?b) = MOUTH"
    by (simp add: onVideoPlay_tick_def sampleTick_simps sessionIn_simps captureBestFace_def
        toBlob_callback_def
        processLiveness_def faceLandmarks_sample_simps BLINK_THRESHOLD_def updateUI_def
        isFrontal_def Let_def jgt_def)
  have em: "state (onVideoPlay_tick ?t ?m) = SHAKE"
    by (simp add: onVideoPlay_tick_def sampleTick_simps sessionIn_simps captureBestFace_def
        toBlob_callback_def
        processLiveness_def faceLandmarks_sample_simps MOUTH_OPEN_THRESHOLD_def jgt_def
        updateUI_def isFrontal_def Let_def)
  from one_challenge_per_frame [of ?b ?t] one_challenge_per_frame [of ?m ?t]
       one_challenge_per_frame [of "sessionIn SHAKE" ?t]
  show ?thesis using hb hm hs eb em by (simp add: sessionIn_simps)
qed

section \<open>The eye aspect ratio of a degenerate contour\<close>

lemma getEAR_six:
  assumes "6 \<le> length eye"
  shows "getEAR eye =
           Some (jdiv (Fin (dist_pt (eye ! 1) (eye ! 5) + dist_pt (eye ! 2) (eye ! 4)))
                      (Fin (2 * dist_pt (eye ! 0) (eye ! 3))))"
  using assms by (auto simp: getEAR_def elemAt_def)

lemma getEAR_not_NInf:
  assumes "6 \<le> length eye"
  shows "\<exists>v. getEAR eye = Some v \<and> v \<noteq> NInf"
proof -
  have "0 \<le> dist_pt (eye ! 1) (eye ! 5) + dist_pt (eye ! 2) (eye ! 4)"
    by (simp add: dist_pt_nonneg)
  then show ?thesis unfolding getEAR_six [OF assms] by auto
qed

lemma getEAR_zero_width:
  assumes "6 \<le> length eye" and "dist_pt (eye ! 0) (eye ! 3) = 0"
  shows "getEAR eye =
           Some (if 0 < dist_pt (eye ! 1) (eye ! 5) + dist_pt (eye ! 2) (eye ! 4)
                 then PInf else NaN)"
proof -
  have "0 \<le> dist_pt (eye ! 1) (eye ! 5) + dist_pt (eye ! 2) (eye ! 4)"
    by (simp add: dist_pt_nonneg)
  then show ?thesis unfolding getEAR_six [OF assms(1)] using assms(2) by auto
qed

lemma half_sum_not_finite:
  assumes "v = PInf \<or> v = NaN" and "w \<noteq> NInf"
  shows "jdiv (jadd v w) (Fin 2) = PInf \<or> jdiv (jadd v w) (Fin 2) = NaN"
    and "jdiv (jadd w v) (Fin 2) = PInf \<or> jdiv (jadd w v) (Fin 2) = NaN"
  using assms by (cases w; auto)+

text \<open>
  Claim C2, as the code has it. The claim asks for a guard: below a small corner
  distance \<open>getEAR\<close> is to return a sentinel and no non-finite value is to go up.
  \<open>getEAR\<close> has no guard. For an eye contour of six points whose corner points
  coincide it does not raise and returns what the division by zero gives: \<open>Infinity\<close>
  when a lid distance is positive, \<open>NaN\<close> when both are zero. The value goes up into
  \<open>avgEAR\<close>, which is then \<open>Infinity\<close> or \<open>NaN\<close>; \<open>avgEAR < 0.30\<close> is false for
  both, so the frame is read as open and never increments \<open>blinkCounter\<close>. A corner
  distance that is small and not zero is not treated in any special way.
\<close>

theorem getEAR_coincident_corners:
  assumes "6 \<le> length eye" and "dist_pt (eye ! 0) (eye ! 3) = 0" and "6 \<le> length other"
    and "state s = BLINK"
    and "(getLeftEye lm = eye \<and> getRightEye lm = other)
         \<or> (getLeftEye lm = other \<and> getRightEye lm = eye)"
  shows "getEAR eye =
           Some (if 0 < dist_pt (eye ! 1) (eye ! 5) + dist_pt (eye ! 2) (eye ! 4)
                 then PInf else NaN)
       \<and> (\<exists>a. avgEAR lm = Some a \<and> (a = PInf \<or> a = NaN) \<and> \<not> jlt a BLINK_THRESHOLD)
       \<and> map_option blinkCounter (processLiveness lm now s) = Some 0"
proof -
  note ear = getEAR_zero_width [OF assms(1,2)]
  obtain v where v: "getEAR eye = Some v" "v = PInf \<or> v = NaN"
    using ear by (cases "0 < dist_pt (eye ! 1) (eye ! 5) + dist_pt (eye ! 2) (eye ! 4)") auto
  obtain w where w: "getEAR other = Some w" "w \<noteq> NInf"
    using getEAR_not_NInf [OF assms(3)] by blast
  obtain a where a: "avgEAR lm = Some a" "a = PInf \<or> a = NaN"
    using assms(5) v(1) w(1) half_sum_not_finite [OF v(2) w(2)]
    by (auto simp: avgEAR_def)
  have nlt: "\<not> jlt a BLINK_THRESHOLD"
    using a(2) by (auto simp: BLINK_THRESHOLD_def)
  have "map_option blinkCounter (processLiveness lm now s) = Some 0"
    unfolding processLiveness_blink_open [OF assms(4) a(1) nlt] by simp
  with ear a nlt show ?thesis by blast
qed

text \<open>A left eye whose six points coincide, beside a right eye that is shut.\<close>

theorem getEAR_coincident_corners_witness:
  "6 \<le> length coincidentEye
   \<and> dist_pt (coincidentEye ! 0) (coincidentEye ! 3) = 0
   \<and> 6 \<le> length (sampleEye (1 / 10))
   \<and> state freshSession = BLINK
   \<and> getLeftEye ((sampleFace (1 / 10) 0 50)\<lparr>getLeftEye := coincidentEye\<rparr>) = coincidentEye
   \<and> getRightEye ((sampleFace (1 / 10) 0 50)\<lparr>getLeftEye := coincidentEye\<rparr>)
       = sampleEye (1 / 10)
   \<and> getEAR coincidentEye = Some NaN
   \<and> map_option blinkCounter
        (processLiveness ((sampleFace (1 / 10) 0 50)\<lparr>getLeftEye := coincidentEye\<rparr>) 0
           freshSession) = Some 0"
proof -
  let ?lm = "(sampleFace (1 / 10) 0 50)\<lparr>getLeftEye := coincidentEye\<rparr>"
  have h1: "6 \<le> length coincidentEye" by (simp add: coincidentEye_def)
  have h2: "dist_pt (coincidentEye ! 0) (coincidentEye ! 3) = 0"
    by (simp add: coincidentEye_def dist_pt_def)
  have h3: "6 \<le> length (sampleEye (1 / 10))" by (simp add: sampleEye_def)
  have h4: "state freshSession = BLINK" by (simp add: freshSession_def)
  have l: "getLeftEye ?lm = coincidentEye" and r: "getRightEye ?lm = sampleEye (1 / 10)"
    by (simp_all add: sampleFace_def)
  have h5: "(getLeftEye ?lm = coincidentEye \<and> getRightEye ?lm = sampleEye (1 / 10))
         \<or> (getLeftEye ?lm = sampleEye (1 / 10) \<and> getRightEye ?lm = coincidentEye)"
    using l r by simp
  have z: "dist_pt (coincidentEye ! 1) (coincidentEye ! 5)
             + dist_pt (coincidentEye ! 2) (coincidentEye ! 4) = 0"
    by (simp add: coincidentEye_def dist_pt_def)
  from getEAR_coincident_corners [OF h1 h2 h3 h4 h5, of 0]
  show ?thesis using h1 h2 h3 h4 l r z by simp
qed

text \<open>
  Against the claim as written: with all six points coincident \<open>getEAR\<close> returns
  \<open>NaN\<close>, and \<open>NaN\<close> is the average that reaches the detector; with the corners a
  billionth of a pixel apart and the lids shut the EAR is \<open>0\<close> and the frame
  increments \<open>blinkCounter\<close>.
\<close>

theorem getEAR_coincident_corners_counterexample:
  "getEAR coincidentEye = Some NaN
   \<and> avgEAR ((sampleFace 0 0 50)\<lparr>getLeftEye := coincidentEye, getRightEye := coincidentEye\<rparr>)
       = Some NaN
   \<and> dist_pt (narrowEye ! 0) (narrowEye ! 3) = 1 / 10 ^ 9
   \<and> getEAR narrowEye = Some (Fin 0)
   \<and> map_option blinkCounter (processLiveness narrowEyedFace 0 freshSession) = Some 1"
  by (simp add: getEAR_coincidentEye getEAR_narrowEye avgEAR_def sampleFace_def
      narrowEyedFace_def processLiveness_def freshSession_def BLINK_THRESHOLD_def)
    (simp add: narrowEye_def pt_def dist_pt_same_y)

end
